theory Spec2Isabelle
  imports Main
begin

section \<open>Faucet server: cooldown store, token registry and dispatch\<close>

text \<open>
  The repository holds four iterations of one Express server. The newest one
  (\<open>src/unnamed/part_000\<close>: cooldown store, periodic sweep, two chains) is embedded in
  full, under the names of the source. Of the older ones, the functions that the
  properties below refer to are embedded under a suffixed name.

  Conventions of the embedding:
  \<^item> \<open>sentMemory\<close> and \<open>supportedTokens\<close> are plain objects used as dictionaries, so a read
    \<open>o[k]\<close> and the test \<open>k in o\<close> also see what \<open>o\<close> inherits. The store is therefore a
    pair: the own properties of \<open>sentMemory\<close>, and the object that an assignment to
    \<open>sentMemory['__proto__']\<close> has put in the place of its prototype, if any. What
    \<open>Object.prototype\<close> and the values found there offer is not code of the repository:
    it is the parameter \<open>rt\<close>.
  \<^item> \<open>Date.now()\<close> is a parameter \<open>now :: int\<close> (milliseconds since the epoch). The reads of
    the clock inside one synchronous run of a handler or of the sweep are one value.
  \<^item> The chain is a parameter: a function from the call that is submitted to its outcome,
    either a pending transaction with a hash, or a thrown \<open>Error\<close> with its message.
  \<^item> \<open>res.send\<close> is the \<open>sent\<close> field of the handler's result and the calls submitted to the
    chain are listed in \<open>chainCalls\<close>. A handler that throws before it sends has \<open>thrown\<close>
    set and \<open>sent\<close> empty; in \<open>src/index.ts\<close> a rejected handler promise is \<open>Rejects\<close>.
\<close>

subsection \<open>Values and the runtime\<close>

datatype js_error = TypeError

text \<open>
  What a property read can yield: \<open>undefined\<close> (or \<open>null\<close>), a number, or a value of the
  runtime (a function, an object, a string). Of a runtime value the handler observes two
  things only: whether it is truthy, and the number it converts to under \<open><=\<close>
  (\<open>None\<close> for \<open>NaN\<close>).
\<close>

datatype jsval = Undefined | Num int | Foreign bool "int option"

fun truthy :: "jsval \<Rightarrow> bool" where
  "truthy Undefined = False"
| "truthy (Num n) = (n \<noteq> 0)"
| "truthy (Foreign b x) = b"

text \<open>\<open>v <= x\<close> for a number \<open>x\<close>: false as soon as \<open>v\<close> converts to \<open>NaN\<close>.\<close>

fun lessEq :: "jsval \<Rightarrow> int \<Rightarrow> bool" where
  "lessEq Undefined x = False"
| "lessEq (Num n) x = (n \<le> x)"
| "lessEq (Foreign b None) x = False"
| "lessEq (Foreign b (Some n)) x = (n \<le> x)"

text \<open>
  The runtime: the data properties of \<open>Object.prototype\<close> (all of them functions, without
  enumerable properties of their own), and the reads \<open>v[k]\<close> on a value \<open>v\<close> that is either
  a number or the value of the property \<open>a\<close> of \<open>Object.prototype\<close>. Such a read can throw
  (an accessor such as \<open>caller\<close>). The accessor \<open>__proto__\<close> of \<open>Object.prototype\<close> is not in
  the table: it follows the rules of the language, written out below.
\<close>

datatype receiver = NumberValue | Builtin string

record runtime =
  objectPrototype :: "string \<rightharpoonup> jsval"
  member :: "receiver \<Rightarrow> string \<Rightarrow> js_error + jsval"

text \<open>\<open>k in o\<close> for an object literal \<open>o\<close> without own property \<open>k\<close>.\<close>

definition hasInherited :: "runtime \<Rightarrow> string \<Rightarrow> bool" where
  "hasInherited rt k = (k = ''__proto__'' \<or> objectPrototype rt k \<noteq> None)"

text \<open>
  \<open>o[k]\<close> for an object literal \<open>o\<close> without own property \<open>k\<close>: its prototype is
  \<open>Object.prototype\<close>, which is also what the getter of \<open>__proto__\<close> returns (an object:
  truthy, \<open>NaN\<close> as a number).
\<close>

definition inheritedProperty :: "runtime \<Rightarrow> string \<Rightarrow> jsval" where
  "inheritedProperty rt k =
     (if k = ''__proto__'' then Foreign True None
      else case objectPrototype rt k of None \<Rightarrow> Undefined | Some v \<Rightarrow> v)"

text \<open>
  \<open>Object.prototype[k]\<close> read on \<open>Object.prototype\<close> itself: its own prototype is \<open>null\<close>.
\<close>

definition objectPrototypeProperty :: "runtime \<Rightarrow> string \<Rightarrow> jsval" where
  "objectPrototypeProperty rt k =
     (if k = ''__proto__'' then Undefined
      else case objectPrototype rt k of None \<Rightarrow> Undefined | Some v \<Rightarrow> v)"

subsection \<open>Wallets, contracts, amounts\<close>

datatype wallet = ethersWallet | edgWallet

datatype JHKToken = jhkToken

datatype amount = BigNumber int | HexString string

record TokenConfig =
  faucetAmount :: amount
  contract :: "JHKToken option"

text \<open>\<open>ethers.utils.parseEther("5.0")\<close> and \<open>parseEther("1.0")\<close>: the amount in wei.\<close>

definition parseEther5 :: amount where
  "parseEther5 = BigNumber (5 * 10 ^ 18)"

definition parseEther1 :: amount where
  "parseEther1 = BigNumber (10 ^ 18)"

text \<open>
  A template literal renders a \<open>BigNumber\<close> through its \<open>toString()\<close>, in decimal, and a
  string as it is.
\<close>

definition digitChar :: "nat \<Rightarrow> char" where
  "digitChar d = ''0123456789'' ! d"

fun decimalDigits :: "nat \<Rightarrow> string" where
  "decimalDigits n =
     (if n < 10 then [digitChar n] else decimalDigits (n div 10) @ [digitChar (n mod 10)])"

declare decimalDigits.simps [simp del]

definition renderInt :: "int \<Rightarrow> string" where
  "renderInt i = (if i < 0 then ''-'' @ decimalDigits (nat (- i)) else decimalDigits (nat i))"

fun renderAmount :: "amount \<Rightarrow> string" where
  "renderAmount (BigNumber i) = renderInt i"
| "renderAmount (HexString s) = s"

text \<open>
  The number a quantity stands for once ethers reads it (\<open>bigNumberify\<close>): a string
  \<open>0x...\<close> is read in base 16.
\<close>

definition hexDigitValue :: "char \<Rightarrow> int" where
  "hexDigitValue c =
     (case List.find (\<lambda>p. fst p = c)
             (zip ''0123456789abcdefABCDEF''
                  [0, 1, 2, 3, 4, 5, 6, 7, 8, 9, 10, 11, 12, 13, 14, 15, 10, 11, 12, 13, 14, 15])
      of Some p \<Rightarrow> snd p | None \<Rightarrow> 0)"

fun bigNumberify :: "amount \<Rightarrow> int" where
  "bigNumberify (BigNumber i) = i"
| "bigNumberify (HexString s) = foldl (\<lambda>acc c. 16 * acc + hexDigitValue c) 0 (drop 2 s)"

subsection \<open>The chain\<close>

datatype call =
    SendTransaction wallet string amount
  | Transfer JHKToken string amount

datatype outcome = Resolves string | Throws string

type_synonym chain = "call \<Rightarrow> outcome"

subsection \<open>Cooldown store\<close>

type_synonym SentData = "string \<rightharpoonup> int"

record SentMemory =
  own :: "string \<rightharpoonup> SentData"
  proto :: "SentData option"

text \<open>\<open>const sentMemory: SentMemory = {}\<close>: no own property, prototype \<open>Object.prototype\<close>.\<close>

definition emptyMemory :: SentMemory where
  "emptyMemory = \<lparr>own = Map.empty, proto = None\<rparr>"

text \<open>
  The object of timestamps that \<open>sentMemory[address]\<close> evaluates to, when it is one. An own
  property comes first. Otherwise the read goes to the replaced prototype \<open>p\<close>: an own
  property of \<open>p\<close> is a number, not an object; and when \<open>p\<close> has none and the name is
  \<open>__proto__\<close>, the getter inherited from \<open>Object.prototype\<close> returns \<open>p\<close> itself.
\<close>

definition dataObject :: "SentMemory \<Rightarrow> string \<Rightarrow> SentData option" where
  "dataObject sentMemory address =
     (case own sentMemory address of
        Some d \<Rightarrow> Some d
      | None \<Rightarrow>
          (case proto sentMemory of
             None \<Rightarrow> None
           | Some p \<Rightarrow> if address = ''__proto__'' \<and> p address = None then Some p else None))"

text \<open>
  \<open>sentMemory[address]\<close> when it is not such an object and not \<open>Object.prototype\<close> itself:
  a number held by the replaced prototype, or what \<open>Object.prototype\<close> offers.
\<close>

definition inheritedValue :: "runtime \<Rightarrow> SentMemory \<Rightarrow> string \<Rightarrow> jsval" where
  "inheritedValue rt sentMemory address =
     (case proto sentMemory of
        None \<Rightarrow> inheritedProperty rt address
      | Some p \<Rightarrow> (case p address of Some n \<Rightarrow> Num n | None \<Rightarrow> inheritedProperty rt address))"

text \<open>The timestamp stored for a pair: the own property \<open>token\<close> of the object \<open>sentMemory[address]\<close>.\<close>

definition entry :: "SentMemory \<Rightarrow> string \<Rightarrow> string \<Rightarrow> int option" where
  "entry sentMemory address token =
     (case dataObject sentMemory address of None \<Rightarrow> None | Some d \<Rightarrow> d token)"

text \<open>
  The expression \<open>sentMemory[address] && sentMemory[address][tokenName]\<close>. With the store
  never touched, \<open>sentMemory['__proto__']\<close> is \<open>Object.prototype\<close> itself. A falsy left
  operand is the value of the expression.
\<close>

definition guardedRead :: "runtime \<Rightarrow> SentMemory \<Rightarrow> string \<Rightarrow> string \<Rightarrow> js_error + jsval" where
  "guardedRead rt sentMemory address tokenName =
     (case dataObject sentMemory address of
        Some d \<Rightarrow>
          Inr (case d tokenName of Some ts \<Rightarrow> Num ts | None \<Rightarrow> inheritedProperty rt tokenName)
      | None \<Rightarrow>
          if address = ''__proto__'' \<and> proto sentMemory = None
          then Inr (objectPrototypeProperty rt tokenName)
          else
            (case inheritedValue rt sentMemory address of
               Undefined \<Rightarrow> Inr Undefined
             | Num n \<Rightarrow> if n \<noteq> 0 then member rt NumberValue tokenName else Inr (Num n)
             | Foreign b x \<Rightarrow>
                 if b then member rt (Builtin address) tokenName else Inr (Foreign b x)))"

text \<open>
  \<open>getLastSentTimeStamp\<close>: the value read when it is truthy, \<open>undefined\<close> otherwise. The
  function assigns nothing, so the store it hands back is the one it was given.
\<close>

definition getLastSentTimeStamp ::
  "runtime \<Rightarrow> SentMemory \<Rightarrow> string \<Rightarrow> string \<Rightarrow> (js_error + jsval) \<times> SentMemory" where
  "getLastSentTimeStamp rt sentMemory address tokenName =
     (case guardedRead rt sentMemory address tokenName of
        Inl e \<Rightarrow> (Inl e, sentMemory)
      | Inr v \<Rightarrow> if truthy v then (Inr v, sentMemory) else (Inr Undefined, sentMemory))"

text \<open>
  Whether the assignment \<open>sentMemory[address] = ...\<close> meets the setter of \<open>__proto__\<close>:
  the name is \<open>__proto__\<close> and neither \<open>sentMemory\<close> nor its replaced prototype has a
  property of that name, so that the accessor of \<open>Object.prototype\<close> is what the
  assignment finds.
\<close>

definition meetsSetter :: "SentMemory \<Rightarrow> string \<Rightarrow> bool" where
  "meetsSetter sentMemory address =
     (address = ''__proto__'' \<and> own sentMemory address = None
      \<and> (case proto sentMemory of None \<Rightarrow> True | Some p \<Rightarrow> p address = None))"

text \<open>
  \<open>setLastSentTimeStamp\<close>. The new object spreads \<open>sentMemory[address]\<close> when that is truthy:
  an object of timestamps gives its entries, a number or a function gives none, so both
  branches of the source build the same object then. The computed key makes \<open>token\<close> an own
  property of the new object whatever its name. The assignment writes an own property of
  \<open>sentMemory\<close>, except when it meets the setter of \<open>__proto__\<close>: then the new object
  becomes the prototype of \<open>sentMemory\<close>.
\<close>

definition setLastSentTimeStamp :: "SentMemory \<Rightarrow> string \<Rightarrow> string \<Rightarrow> int \<Rightarrow> SentMemory" where
  "setLastSentTimeStamp sentMemory address token now =
     (let obj = (case dataObject sentMemory address of
                   Some d \<Rightarrow> d(token \<mapsto> now)
                 | None \<Rightarrow> [token \<mapsto> now])
      in if meetsSetter sentMemory address
         then sentMemory\<lparr>proto := Some obj\<rparr>
         else sentMemory\<lparr>own := (own sentMemory)(address \<mapsto> obj)\<rparr>)"

text \<open>
  The callback of \<open>setInterval\<close>. The outer \<open>for...in\<close> yields the own property names of
  \<open>sentMemory\<close> and the names held by its replaced prototype. Under an own name the inner
  loop visits every entry once and deletes it when its timestamp is at most
  \<open>now - 24 * 60 * 60 * 1000\<close>; the address objects stay, possibly empty. Under a name of
  the prototype that is not an own name, \<open>sentMemory[address]\<close> is a number and the inner
  loop has nothing to visit. The name \<open>__proto__\<close> is yielded only as an own name, so the
  prototype object itself is never visited.
\<close>

definition sweepData :: "int \<Rightarrow> SentData \<Rightarrow> SentData" where
  "sweepData now d =
     (\<lambda>token. case d token of
        None \<Rightarrow> None
      | Some ts \<Rightarrow> if ts \<le> now - 24 * 60 * 60 * 1000 then None else Some ts)"

definition sweep :: "int \<Rightarrow> SentMemory \<Rightarrow> SentMemory" where
  "sweep now sentMemory =
     sentMemory\<lparr>own := (\<lambda>address. case own sentMemory address of
                                   None \<Rightarrow> None
                                 | Some d \<Rightarrow> Some (sweepData now d))\<rparr>"

definition sweepInterval :: int where
  "sweepInterval = 1000 * 60 * 60 * 24"

subsection \<open>Token registry\<close>

definition supportedTokens :: "string \<rightharpoonup> TokenConfig" where
  "supportedTokens =
     [''ETH'' \<mapsto> \<lparr>faucetAmount = parseEther5, contract = None\<rparr>,
      ''USDC'' \<mapsto> \<lparr>faucetAmount = HexString ''0x25AF080'', contract = Some jhkToken\<rparr>,
      ''EDG'' \<mapsto> \<lparr>faucetAmount = parseEther5, contract = None\<rparr>]"

definition getContract :: "string \<Rightarrow> TokenConfig option" where
  "getContract tokenName =
     (if tokenName = ''USDC'' then supportedTokens ''USDC'' else None)"

subsection \<open>Dispatch\<close>

text \<open>
  \<open>sentNativeTokens\<close>: the whole body is inside \<open>try\<close>, and \<open>catch\<close> returns the message of
  what was thrown. Reading \<open>faucetAmount\<close> of a symbol without a registry entry would throw
  a \<open>TypeError\<close> inside the \<open>try\<close>; a wallet is only chosen for ETH and EDG, which have one.
\<close>

definition typeErrorMessage :: string where
  "typeErrorMessage = ''Cannot read property of undefined''"

definition sentNativeTokens :: "chain \<Rightarrow> string \<Rightarrow> string \<Rightarrow> string \<times> call list" where
  "sentNativeTokens chain tokenName address =
     (case (if tokenName = ''ETH'' then Some ethersWallet
            else if tokenName = ''EDG'' then Some edgWallet else None) of
        Some w \<Rightarrow>
          (case supportedTokens tokenName of
             None \<Rightarrow> (typeErrorMessage, [])
           | Some cfg \<Rightarrow>
               (case chain (SendTransaction w address (faucetAmount cfg)) of
                  Resolves h \<Rightarrow>
                    (''Sent '' @ renderAmount (faucetAmount cfg) @ '' '' @ tokenName
                       @ '' TX hash: '' @ h @ ''.'',
                     [SendTransaction w address (faucetAmount cfg)])
                | Throws m \<Rightarrow> (m, [SendTransaction w address (faucetAmount cfg)])))
      | None \<Rightarrow> (''Token unsupported.'', []))"

text \<open>The test \<open>/^0x[a-fA-F0-9]{40}$/\<close>: \<open>0x\<close>, then exactly 40 hexadecimal digits.\<close>

definition isHexDigit :: "char \<Rightarrow> bool" where
  "isHexDigit c = (c \<in> set ''abcdefABCDEF0123456789'')"

definition validAddress :: "string \<Rightarrow> bool" where
  "validAddress address =
     (length address = 42 \<and> take 2 address = ''0x'' \<and> list_all isHexDigit (drop 2 address))"

record handled =
  memory :: SentMemory
  sent :: string
  chainCalls :: "call list"
  thrown :: "js_error option"

definition cooldownMessage :: string where
  "cooldownMessage = ''Have already recieved tokens in last 24 hours.''"

text \<open>
  The gate of the handler, \<open>!lastSent || lastSent <= Date.now() - 24 * 60 * 60 * 1000\<close>,
  on what \<open>getLastSentTimeStamp\<close> returned.
\<close>

definition cooledDown :: "jsval \<Rightarrow> int \<Rightarrow> bool" where
  "cooledDown lastSent now =
     (\<not> truthy lastSent \<or> lessEq lastSent (now - 24 * 60 * 60 * 1000))"

text \<open>
  The handler of \<open>POST /faucet/:token/:address\<close>. The test \<open>req.params.token in
  supportedTokens\<close> holds for the own keys of the registry and for every name the registry
  object inherits.
\<close>

definition faucet ::
  "runtime \<Rightarrow> chain \<Rightarrow> int \<Rightarrow> SentMemory \<Rightarrow> string \<Rightarrow> string \<Rightarrow> handled" where
  "faucet rt chain now sentMemory token address =
     (case getLastSentTimeStamp rt sentMemory address token of
        (Inl e, sentMemory0) \<Rightarrow>
          \<lparr>memory = sentMemory0, sent = [], chainCalls = [], thrown = Some e\<rparr>
      | (Inr lastSent, sentMemory0) \<Rightarrow>
          if cooledDown lastSent now then
            (let sentMemory1 = setLastSentTimeStamp sentMemory0 address token now in
             if token \<in> dom supportedTokens \<or> hasInherited rt token then
               if address \<noteq> [] \<and> validAddress address then
                 if token \<in> set [''ETH'', ''EDG''] then
                   (case sentNativeTokens chain token address of
                      (mes, cs) \<Rightarrow>
                        \<lparr>memory = sentMemory1, sent = mes, chainCalls = cs, thrown = None\<rparr>)
                 else
                   (case getContract token of
                      None \<Rightarrow>
                        \<lparr>memory = sentMemory1,
                         sent = ''Unsupported token '' @ token @ ''.'', chainCalls = [],
                         thrown = None\<rparr>
                    | Some cfg \<Rightarrow>
                        (case contract cfg of
                           None \<Rightarrow>
                             \<lparr>memory = sentMemory1,
                              sent = ''Unsupported token '' @ token @ ''.'', chainCalls = [],
                              thrown = None\<rparr>
                         | Some k \<Rightarrow>
                             (case chain (Transfer k address (faucetAmount cfg)) of
                                Resolves h \<Rightarrow>
                                  \<lparr>memory = sentMemory1,
                                   sent = ''Sent '' @ renderAmount (faucetAmount cfg) @ '' ''
                                            @ token @ ''.'',
                                   chainCalls = [Transfer k address (faucetAmount cfg)],
                                   thrown = None\<rparr>
                              | Throws m \<Rightarrow>
                                  \<lparr>memory = sentMemory1, sent = m,
                                   chainCalls = [Transfer k address (faucetAmount cfg)],
                                   thrown = None\<rparr>)))
               else
                 \<lparr>memory = sentMemory1, sent = ''Invalid address'', chainCalls = [],
                  thrown = None\<rparr>
             else
               \<lparr>memory = sentMemory1,
                sent = ''Unsupported token '' @ token @ ''.'', chainCalls = [],
                thrown = None\<rparr>)
          else
            \<lparr>memory = sentMemory0, sent = cooldownMessage, chainCalls = [], thrown = None\<rparr>)"

subsection \<open>Older iterations\<close>

text \<open>
  The iteration without a cooldown store (\<open>src/index.ts\<close>, first of its two listings): the
  handler awaits the chain outside any \<open>try\<close>, so a thrown error rejects the handler's
  promise and nothing is sent. The native amount is the literal \<open>parseEther("1.0")\<close>, and the
  success messages print the literals \<open>1.0\<close> and \<open>20\<close>.
\<close>

definition supportedTokens_index :: "string \<rightharpoonup> TokenConfig" where
  "supportedTokens_index =
     [''ETH'' \<mapsto> \<lparr>faucetAmount = HexString ''0x1312D00'', contract = None\<rparr>,
      ''USDC'' \<mapsto> \<lparr>faucetAmount = HexString ''0x1312D00'', contract = Some jhkToken\<rparr>]"

definition getContract_index :: "string \<Rightarrow> TokenConfig option" where
  "getContract_index tokenName =
     (if tokenName = ''USDC'' then supportedTokens_index ''USDC'' else None)"

datatype settled = Responds string | Rejects string

definition faucet_index :: "runtime \<Rightarrow> chain \<Rightarrow> string \<Rightarrow> string \<Rightarrow> settled \<times> call list" where
  "faucet_index rt chain token address =
     (if token \<in> dom supportedTokens_index \<or> hasInherited rt token then
        if address \<noteq> [] \<and> validAddress address then
          if token = ''ETH'' then
            (case chain (SendTransaction ethersWallet address parseEther1) of
               Resolves h \<Rightarrow>
                 (Responds (''Sent 1 '' @ token @ '' TX hash: '' @ h @ ''.''),
                  [SendTransaction ethersWallet address parseEther1])
             | Throws m \<Rightarrow> (Rejects m, [SendTransaction ethersWallet address parseEther1]))
          else
            (case getContract_index token of
               None \<Rightarrow> (Responds (''Unsupported token '' @ token @ ''.''), [])
             | Some cfg \<Rightarrow>
                 (case contract cfg of
                    None \<Rightarrow> (Rejects typeErrorMessage, [])
                  | Some k \<Rightarrow>
                      (case chain (Transfer k address (faucetAmount cfg)) of
                         Resolves h \<Rightarrow>
                           (Responds (''Sent 20 '' @ token @ ''.''),
                            [Transfer k address (faucetAmount cfg)])
                       | Throws m \<Rightarrow> (Rejects m, [Transfer k address (faucetAmount cfg)]))))
        else (Responds ''Invalid address'', [])
      else (Responds ''Error'', []))"

text \<open>
  The first iteration with a cooldown store (\<open>src/unnamed/part_001\<close>): its
  \<open>getLastSentTimeStamp\<close> reads \<open>sentMemory[address][tokenName]\<close> without testing
  \<open>sentMemory[address]\<close> first. The read throws a \<open>TypeError\<close> when \<open>sentMemory[address]\<close> is
  \<open>undefined\<close>; on a number or a runtime value it is a read of the runtime.
\<close>

definition getLastSentTimeStamp_part_001 ::
  "runtime \<Rightarrow> SentMemory \<Rightarrow> string \<Rightarrow> string \<Rightarrow> js_error + jsval" where
  "getLastSentTimeStamp_part_001 rt sentMemory address tokenName =
     (case (case dataObject sentMemory address of
              Some d \<Rightarrow>
                Inr (case d tokenName of
                       Some ts \<Rightarrow> Num ts
                     | None \<Rightarrow> inheritedProperty rt tokenName)
            | None \<Rightarrow>
                if address = ''__proto__'' \<and> proto sentMemory = None
                then Inr (objectPrototypeProperty rt tokenName)
                else
                  (case inheritedValue rt sentMemory address of
                     Undefined \<Rightarrow> Inl TypeError
                   | Num n \<Rightarrow> member rt NumberValue tokenName
                   | Foreign b x \<Rightarrow> member rt (Builtin address) tokenName))
      of Inl e \<Rightarrow> Inl e
       | Inr v \<Rightarrow> if truthy v then Inr v else Inr Undefined)"

subsection \<open>A runtime and sample requests\<close>

text \<open>
  The runtime of Node 14, as far as the handler can reach it: the eleven functions of
  \<open>Object.prototype\<close>; on a number, the functions of \<open>Number.prototype\<close> and
  \<open>Number.prototype\<close> itself (a truthy object that converts to 0); on a function, its
  \<open>length\<close> (a number), its \<open>name\<close> (a string that converts to \<open>NaN\<close>), the throwing
  accessors \<open>caller\<close> and \<open>arguments\<close>, the functions of \<open>Function.prototype\<close> and, for the
  constructor \<open>Object\<close>, its \<open>prototype\<close> and its static functions.
\<close>

definition objectPrototypeFunctions :: "string list" where
  "objectPrototypeFunctions =
     [''constructor'', ''__defineGetter__'', ''__defineSetter__'', ''hasOwnProperty'',
      ''__lookupGetter__'', ''__lookupSetter__'', ''isPrototypeOf'', ''propertyIsEnumerable'',
      ''toString'', ''valueOf'', ''toLocaleString'']"

definition numberPrototypeFunctions :: "string list" where
  "numberPrototypeFunctions =
     [''constructor'', ''toExponential'', ''toFixed'', ''toPrecision'', ''toString'',
      ''valueOf'', ''toLocaleString'']"

definition functionPrototypeFunctions :: "string list" where
  "functionPrototypeFunctions = [''apply'', ''bind'', ''call'', ''constructor'', ''toString'']"

definition objectStatics :: "string list" where
  "objectStatics =
     [''prototype'', ''assign'', ''create'', ''defineProperties'', ''defineProperty'',
      ''entries'', ''freeze'', ''fromEntries'', ''getOwnPropertyDescriptor'',
      ''getOwnPropertyDescriptors'', ''getOwnPropertyNames'', ''getOwnPropertySymbols'',
      ''getPrototypeOf'', ''is'', ''isExtensible'', ''isFrozen'', ''isSealed'', ''keys'',
      ''preventExtensions'', ''seal'', ''setPrototypeOf'', ''values'']"

definition functionLength :: "string \<Rightarrow> int" where
  "functionLength a =
     (if a \<in> set [''__defineGetter__'', ''__defineSetter__''] then 2
      else if a \<in> set [''toString'', ''valueOf'', ''toLocaleString''] then 0
      else 1)"

definition nodeMember :: "receiver \<Rightarrow> string \<Rightarrow> js_error + jsval" where
  "nodeMember r k =
     (case r of
        NumberValue \<Rightarrow>
          Inr (if k = ''__proto__'' then Foreign True (Some 0)
               else if k \<in> set numberPrototypeFunctions \<or> k \<in> set objectPrototypeFunctions
               then Foreign True None
               else Undefined)
      | Builtin a \<Rightarrow>
          if k = ''caller'' \<or> k = ''arguments'' then Inl TypeError
          else if k = ''length'' then Inr (Num (functionLength a))
          else if k = ''name'' \<or> k = ''__proto__''
                  \<or> k \<in> set functionPrototypeFunctions \<or> k \<in> set objectPrototypeFunctions
                  \<or> (a = ''constructor'' \<and> k \<in> set objectStatics)
          then Inr (Foreign True None)
          else Inr Undefined)"

definition nodeRuntime :: runtime where
  "nodeRuntime =
     \<lparr>objectPrototype =
        (\<lambda>k. if k \<in> set objectPrototypeFunctions then Some (Foreign True None) else None),
      member = nodeMember\<rparr>"

definition addrA :: string where
  "addrA = ''0xAAAAAAAAAAAAAAAAAAAAAAAAAAAAAAAAAAAAAAAA''"

definition chainAccepts :: chain where
  "chainAccepts c = Resolves ''0xfeed''"

definition chainFails :: chain where
  "chainFails c = Throws ''insufficient funds''"


definition memBad :: SentMemory where
  "memBad = \<lparr>own = [''0xbad'' \<mapsto> [''ETH'' \<mapsto> 1000]], proto = None\<rparr>"

text \<open>The store after \<open>POST /faucet/ETH/__proto__\<close> at time 1000 on the untouched store.\<close>

definition memProto :: SentMemory where
  "memProto = \<lparr>own = Map.empty, proto = Some [''ETH'' \<mapsto> 1000]\<rparr>"

section \<open>Properties\<close>

subsection \<open>How the store operations and the handler compute\<close>

lemma validAddress_addrA: "validAddress addrA"
  by (simp add: validAddress_def addrA_def isHexDigit_def)

lemma validAddress_nonempty: "validAddress address \<Longrightarrow> address \<noteq> []"
  by (auto simp: validAddress_def)

lemma dom_supportedTokens: "dom supportedTokens = {''ETH'', ''USDC'', ''EDG''}"
  by (auto simp: supportedTokens_def split: if_splits)

lemma getLastSentTimeStamp_snd:
  "snd (getLastSentTimeStamp rt sentMemory address tokenName) = sentMemory"
  by (simp add: getLastSentTimeStamp_def split: sum.splits)

lemma getLastSentTimeStamp_fst:
  "fst (getLastSentTimeStamp rt sentMemory address tokenName) =
     (case guardedRead rt sentMemory address tokenName of
        Inl e \<Rightarrow> Inl e
      | Inr v \<Rightarrow> if truthy v then Inr v else Inr Undefined)"
  by (simp add: getLastSentTimeStamp_def split: sum.splits)


text \<open>A stored timestamp other than 0 is what the lookup returns, whatever the runtime.\<close>

lemma getLastSentTimeStamp_entry:
  "entry sentMemory address tokenName = Some ts \<Longrightarrow> ts \<noteq> 0 \<Longrightarrow>
     fst (getLastSentTimeStamp rt sentMemory address tokenName) = Inr (Num ts)"
  by (auto simp: getLastSentTimeStamp_fst guardedRead_def entry_def split: option.splits)

text \<open>
  On the untouched store, a pair whose address is not \<open>__proto__\<close> and not a name of
  \<open>Object.prototype\<close> reads as \<open>undefined\<close>.
\<close>

lemma getLastSentTimeStamp_emptyMemory:
  "address \<noteq> ''__proto__'' \<Longrightarrow> objectPrototype rt address = None \<Longrightarrow>
     fst (getLastSentTimeStamp rt emptyMemory address tokenName) = Inr Undefined"
  by (simp add: getLastSentTimeStamp_fst guardedRead_def dataObject_def inheritedValue_def
        inheritedProperty_def emptyMemory_def)

text \<open>The two outcomes of the assignment in \<open>setLastSentTimeStamp\<close>.\<close>

lemma dataObject_meetsSetter:
  "meetsSetter sentMemory address \<Longrightarrow> dataObject sentMemory address = proto sentMemory"
  by (auto simp: meetsSetter_def dataObject_def split: option.splits)

lemma dataObject_update_own:
  "dataObject (sentMemory\<lparr>own := (own sentMemory)(a \<mapsto> obj)\<rparr>) a' =
     (if a' = a then Some obj else dataObject sentMemory a')"
  by (simp add: dataObject_def cong: option.case_cong)

lemma dataObject_update_proto:
  "dataObject (sentMemory\<lparr>proto := Some obj\<rparr>) a' =
     (case own sentMemory a' of
        Some d \<Rightarrow> Some d
      | None \<Rightarrow> if a' = ''__proto__'' \<and> obj a' = None then Some obj else None)"
  by (simp add: dataObject_def cong: option.case_cong)

lemma setLastSentTimeStamp_own:
  "\<not> meetsSetter sentMemory address \<Longrightarrow>
     setLastSentTimeStamp sentMemory address token now =
       sentMemory\<lparr>own := (own sentMemory)(address \<mapsto>
          (case dataObject sentMemory address of
             Some d \<Rightarrow> d(token \<mapsto> now) | None \<Rightarrow> [token \<mapsto> now]))\<rparr>"
  by (simp add: setLastSentTimeStamp_def Let_def)

lemma setLastSentTimeStamp_setter:
  "meetsSetter sentMemory address \<Longrightarrow>
     setLastSentTimeStamp sentMemory address token now =
       sentMemory\<lparr>proto := Some
          (case proto sentMemory of
             Some p \<Rightarrow> p(token \<mapsto> now) | None \<Rightarrow> [token \<mapsto> now])\<rparr>"
  by (simp add: setLastSentTimeStamp_def Let_def dataObject_meetsSetter)

lemma entry_setLastSentTimeStamp_same:
  assumes "address \<noteq> ''__proto__'' \<or> token \<noteq> ''__proto__''"
  shows "entry (setLastSentTimeStamp sentMemory address token now) address token = Some now"
proof (cases "meetsSetter sentMemory address")
  case False
  then show ?thesis
    by (simp add: setLastSentTimeStamp_own entry_def dataObject_update_own split: option.splits)
next
  case True
  then have "address = ''__proto__''" and "own sentMemory address = None"
    and "case proto sentMemory of None \<Rightarrow> True | Some p \<Rightarrow> p address = None"
    by (auto simp: meetsSetter_def)
  with assms True show ?thesis
    by (simp add: setLastSentTimeStamp_setter entry_def dataObject_update_proto
          split: option.splits)
qed

text \<open>
  Recording a pair leaves the stored timestamp of every other pair as it was, unless both
  names of the recorded pair are \<open>__proto__\<close>.
\<close>

lemma entry_setLastSentTimeStamp_other:
  assumes "(a', t') \<noteq> (a, t)" and "a \<noteq> ''__proto__'' \<or> t \<noteq> ''__proto__''"
  shows "entry (setLastSentTimeStamp sentMemory a t now) a' t' = entry sentMemory a' t'"
proof (cases "meetsSetter sentMemory a")
  case False
  show ?thesis
  proof (cases "a' = a")
    case True
    with assms(1) have "t' \<noteq> t" by simp
    with True show ?thesis
      by (simp add: setLastSentTimeStamp_own [OF False] entry_def dataObject_update_own
            split: option.splits)
  next
    case False
    then show ?thesis
      by (simp add: setLastSentTimeStamp_own [OF \<open>\<not> meetsSetter sentMemory a\<close>] entry_def
            dataObject_update_own)
  qed
next
  case True
  then have a: "a = ''__proto__''" and t: "t \<noteq> ''__proto__''"
    and own: "own sentMemory a = None"
    and p: "case proto sentMemory of None \<Rightarrow> True | Some p \<Rightarrow> p a = None"
    using assms(2) by (auto simp: meetsSetter_def)
  have old: "dataObject sentMemory a = proto sentMemory"
    by (rule dataObject_meetsSetter [OF True])
  show ?thesis
  proof (cases "a' = a")
    case True
    with assms(1) have "t' \<noteq> t" by simp
    with True a t own p old \<open>meetsSetter sentMemory a\<close> show ?thesis
      by (simp add: setLastSentTimeStamp_setter entry_def dataObject_update_proto
            split: option.splits)
  next
    case False
    with a have "a' \<noteq> ''__proto__''" by simp
    with \<open>meetsSetter sentMemory a\<close> show ?thesis
      by (simp add: setLastSentTimeStamp_setter entry_def dataObject_update_proto
            dataObject_def split: option.splits)
  qed
qed

text \<open>
  The sweep on the entries it reaches, those of the own address objects: an entry is
  removed exactly when its timestamp is at most \<open>now - 86400000\<close>. Every other stored
  timestamp is left as it was.
\<close>

lemma entry_sweep_own:
  "own sentMemory a = Some d \<Longrightarrow>
     entry (sweep now sentMemory) a t =
       (case d t of
          None \<Rightarrow> None
        | Some ts \<Rightarrow> if ts \<le> now - 86400000 then None else Some ts)"
  by (simp add: sweep_def sweepData_def entry_def dataObject_def split: option.splits)

lemma entry_sweep_inherited:
  "own sentMemory a = None \<Longrightarrow> entry (sweep now sentMemory) a t = entry sentMemory a t"
  by (simp add: sweep_def entry_def dataObject_def split: option.splits)

lemma sweep_empty: "sweep now emptyMemory = emptyMemory"
  by (simp add: sweep_def emptyMemory_def)

lemma sweepInterval_value: "sweepInterval = 86400000"
  by (simp add: sweepInterval_def)

text \<open>The handler, branch by branch.\<close>

lemma faucet_thrown:
  assumes "fst (getLastSentTimeStamp rt sentMemory address token) = Inl e"
  shows "faucet rt chain now sentMemory token address =
           \<lparr>memory = sentMemory, sent = [], chainCalls = [], thrown = Some e\<rparr>"
  using assms getLastSentTimeStamp_snd [of rt sentMemory address token]
  by (cases "getLastSentTimeStamp rt sentMemory address token") (simp add: faucet_def)

lemma faucet_blocked:
  assumes "fst (getLastSentTimeStamp rt sentMemory address token) = Inr lastSent"
    and "\<not> cooledDown lastSent now"
  shows "faucet rt chain now sentMemory token address =
           \<lparr>memory = sentMemory, sent = cooldownMessage, chainCalls = [], thrown = None\<rparr>"
  using assms getLastSentTimeStamp_snd [of rt sentMemory address token]
  by (cases "getLastSentTimeStamp rt sentMemory address token") (simp add: faucet_def)

lemma faucet_unsupported:
  assumes "fst (getLastSentTimeStamp rt sentMemory address token) = Inr lastSent"
    and "cooledDown lastSent now"
    and "token \<notin> dom supportedTokens" and "\<not> hasInherited rt token"
  shows "faucet rt chain now sentMemory token address =
           \<lparr>memory = setLastSentTimeStamp sentMemory address token now,
            sent = ''Unsupported token '' @ token @ ''.'', chainCalls = [], thrown = None\<rparr>"
  using assms getLastSentTimeStamp_snd [of rt sentMemory address token]
  by (cases "getLastSentTimeStamp rt sentMemory address token") (simp add: faucet_def)

lemma faucet_invalid:
  assumes "fst (getLastSentTimeStamp rt sentMemory address token) = Inr lastSent"
    and "cooledDown lastSent now"
    and "token \<in> dom supportedTokens \<or> hasInherited rt token" and "\<not> validAddress address"
  shows "faucet rt chain now sentMemory token address =
           \<lparr>memory = setLastSentTimeStamp sentMemory address token now,
            sent = ''Invalid address'', chainCalls = [], thrown = None\<rparr>"
  using assms getLastSentTimeStamp_snd [of rt sentMemory address token]
  by (cases "getLastSentTimeStamp rt sentMemory address token") (auto simp: faucet_def)

text \<open>
  A name that only the prototype of the registry offers passes the \<open>in\<close> test and, with a
  well-formed address, ends in \<open>getContract\<close>, which knows no such token.
\<close>

lemma faucet_inherited:
  assumes "fst (getLastSentTimeStamp rt sentMemory address token) = Inr lastSent"
    and "cooledDown lastSent now"
    and "token \<notin> dom supportedTokens" and "hasInherited rt token" and "validAddress address"
  shows "faucet rt chain now sentMemory token address =
           \<lparr>memory = setLastSentTimeStamp sentMemory address token now,
            sent = ''Unsupported token '' @ token @ ''.'', chainCalls = [], thrown = None\<rparr>"
  using assms getLastSentTimeStamp_snd [of rt sentMemory address token]
    validAddress_nonempty [of address]
  by (cases "getLastSentTimeStamp rt sentMemory address token")
     (auto simp: faucet_def dom_supportedTokens getContract_def)

lemma faucet_native:
  assumes "fst (getLastSentTimeStamp rt sentMemory address token) = Inr lastSent"
    and "cooledDown lastSent now"
    and "token = ''ETH'' \<or> token = ''EDG''" and "validAddress address"
  shows "faucet rt chain now sentMemory token address =
           \<lparr>memory = setLastSentTimeStamp sentMemory address token now,
            sent = fst (sentNativeTokens chain token address),
            chainCalls = snd (sentNativeTokens chain token address), thrown = None\<rparr>"
  using assms getLastSentTimeStamp_snd [of rt sentMemory address token]
    validAddress_nonempty [of address]
  by (cases "getLastSentTimeStamp rt sentMemory address token")
     (auto simp: faucet_def dom_supportedTokens split: prod.splits)

lemma faucet_contract:
  assumes "fst (getLastSentTimeStamp rt sentMemory address token) = Inr lastSent"
    and "cooledDown lastSent now"
    and "token = ''USDC''" and "validAddress address"
  shows "faucet rt chain now sentMemory token address =
           (case chain (Transfer jhkToken address (HexString ''0x25AF080'')) of
              Resolves h \<Rightarrow>
                \<lparr>memory = setLastSentTimeStamp sentMemory address token now,
                 sent = ''Sent 0x25AF080 USDC.'',
                 chainCalls = [Transfer jhkToken address (HexString ''0x25AF080'')],
                 thrown = None\<rparr>
            | Throws m \<Rightarrow>
                \<lparr>memory = setLastSentTimeStamp sentMemory address token now,
                 sent = m,
                 chainCalls = [Transfer jhkToken address (HexString ''0x25AF080'')],
                 thrown = None\<rparr>)"
  using assms getLastSentTimeStamp_snd [of rt sentMemory address token]
    validAddress_nonempty [of address]
  by (cases "getLastSentTimeStamp rt sentMemory address token")
     (auto simp: faucet_def dom_supportedTokens getContract_def supportedTokens_def
           split: prod.splits outcome.splits)

lemma sentNativeTokens_ETH:
  "sentNativeTokens chain ''ETH'' address =
     (case chain (SendTransaction ethersWallet address parseEther5) of
        Resolves h \<Rightarrow>
          (''Sent '' @ renderAmount parseEther5 @ '' ETH TX hash: '' @ h @ ''.'',
           [SendTransaction ethersWallet address parseEther5])
      | Throws m \<Rightarrow> (m, [SendTransaction ethersWallet address parseEther5]))"
  by (simp add: sentNativeTokens_def supportedTokens_def split: outcome.splits)

lemma sentNativeTokens_EDG:
  "sentNativeTokens chain ''EDG'' address =
     (case chain (SendTransaction edgWallet address parseEther5) of
        Resolves h \<Rightarrow>
          (''Sent '' @ renderAmount parseEther5 @ '' EDG TX hash: '' @ h @ ''.'',
           [SendTransaction edgWallet address parseEther5])
      | Throws m \<Rightarrow> (m, [SendTransaction edgWallet address parseEther5]))"
  by (simp add: sentNativeTokens_def supportedTokens_def split: outcome.splits)

lemma render_parseEther5: "renderAmount parseEther5 = ''5000000000000000000''"
  by (simp add: parseEther5_def renderInt_def decimalDigits.simps digitChar_def)

subsection \<open>When the handler reaches the chain\<close>


text \<open>No other request does: not one stopped by a throwing lookup or by the gate, not one
  for a token outside the registry, not one with a malformed address.\<close>

lemma faucet_no_call_unregistered:
  assumes "token \<notin> dom supportedTokens"
  shows "chainCalls (faucet rt chain now sentMemory token address) = []"
proof (cases "fst (getLastSentTimeStamp rt sentMemory address token)")
  case (Inl e)
  from faucet_thrown [OF this] show ?thesis by simp
next
  case (Inr v)
  show ?thesis
  proof (cases "cooledDown v now")
    case False
    from faucet_blocked [OF Inr this] show ?thesis by simp
  next
    case True
    show ?thesis
    proof (cases "hasInherited rt token")
      case False
      from faucet_unsupported [OF Inr True assms False] show ?thesis by simp
    next
      case inherited: True
      show ?thesis
      proof (cases "validAddress address")
        case False
        from faucet_invalid [OF Inr True _ False, of chain] inherited show ?thesis by simp
      next
        case valid: True
        from faucet_inherited [OF Inr True assms inherited valid] show ?thesis by simp
      qed
    qed
  qed
qed

lemma faucet_no_call_invalid:
  assumes "\<not> validAddress address"
  shows "chainCalls (faucet rt chain now sentMemory token address) = []"
proof (cases "fst (getLastSentTimeStamp rt sentMemory address token)")
  case (Inl e)
  from faucet_thrown [OF this] show ?thesis by simp
next
  case (Inr v)
  show ?thesis
  proof (cases "cooledDown v now")
    case False
    from faucet_blocked [OF Inr this] show ?thesis by simp
  next
    case True
    show ?thesis
    proof (cases "token \<in> dom supportedTokens \<or> hasInherited rt token")
      case False
      with faucet_unsupported [OF Inr True, of chain] show ?thesis by simp
    next
      case True': True
      from faucet_invalid [OF Inr True True' assms] show ?thesis by simp
    qed
  qed
qed

lemma chainCalls_gate:
  assumes "chainCalls (faucet rt chain now sentMemory token address) = [c]"
  obtains lastSent where "fst (getLastSentTimeStamp rt sentMemory address token) = Inr lastSent"
    and "cooledDown lastSent now"
proof (cases "fst (getLastSentTimeStamp rt sentMemory address token)")
  case (Inl e)
  from faucet_thrown [OF this, of chain now] assms show ?thesis by simp
next
  case (Inr v)
  have "cooledDown v now"
  proof (rule ccontr)
    assume "\<not> ?thesis"
    from faucet_blocked [OF Inr this, of chain] assms show False by simp
  qed
  with Inr that show ?thesis by blast
qed

lemma chainCalls_supported:
  assumes "chainCalls (faucet rt chain now sentMemory token address) = [c]"
  shows "token \<in> dom supportedTokens"
  using assms faucet_no_call_unregistered [of token rt chain now sentMemory address]
  by auto

lemma chainCalls_valid:
  assumes "chainCalls (faucet rt chain now sentMemory token address) = [c]"
  shows "validAddress address"
  using assms faucet_no_call_invalid [of address rt chain now sentMemory token]
  by auto

text \<open>
  In the newest iteration a thrown chain error never leaves the handler: whatever call was
  submitted, if the chain throws with message \<open>m\<close> then \<open>m\<close> is what is sent.
\<close>

lemma faucet_catches:
  assumes "chainCalls (faucet rt chain now sentMemory token address) = [c]"
    and "chain c = Throws m"
  shows "sent (faucet rt chain now sentMemory token address) = m
       \<and> thrown (faucet rt chain now sentMemory token address) = None"
proof -
  from chainCalls_gate [OF assms(1)] obtain lastSent
    where get: "fst (getLastSentTimeStamp rt sentMemory address token) = Inr lastSent"
      and open_gate: "cooledDown lastSent now"
    by blast
  note valid = chainCalls_valid [OF assms(1)]
  from chainCalls_supported [OF assms(1)]
  consider "token = ''ETH''" | "token = ''EDG''" | "token = ''USDC''"
    by (auto simp: dom_supportedTokens)
  then show ?thesis
  proof cases
    case 1
    with faucet_native [OF get open_gate _ valid, of chain] assms show ?thesis
      by (auto simp: sentNativeTokens_ETH split: outcome.splits)
  next
    case 2
    with faucet_native [OF get open_gate _ valid, of chain] assms show ?thesis
      by (auto simp: sentNativeTokens_EDG split: outcome.splits)
  next
    case 3
    with faucet_contract [OF get open_gate _ valid, of chain] assms show ?thesis
      by (auto split: outcome.splits)
  qed
qed

text \<open>
  In the newest iteration a native dispense submits the amount of the registry entry, signed
  by the wallet of the token's chain.
\<close>

lemma native_amount_and_wallet:
  assumes "token = ''ETH'' \<or> token = ''EDG''"
    and "fst (getLastSentTimeStamp rt sentMemory address token) = Inr lastSent"
    and "cooledDown lastSent now"
    and "validAddress address" and "supportedTokens token = Some cfg"
  shows "chainCalls (faucet rt chain now sentMemory token address) =
           [SendTransaction (if token = ''ETH'' then ethersWallet else edgWallet) address
              (faucetAmount cfg)]"
  using faucet_native [OF assms(2) assms(3) assms(1) assms(4), of chain] assms(1) assms(5)
  by (auto simp: sentNativeTokens_ETH sentNativeTokens_EDG supportedTokens_def
           split: outcome.splits)

text \<open>
  In the newest iteration a timestamp that was just recorded is read back, provided the
  clock does not read 0 (the one number that is falsy) and the pair is not
  \<open>(__proto__, __proto__)\<close>; and on the untouched store a pair of ordinary names reads as
  nothing (\<open>getLastSentTimeStamp_emptyMemory\<close>).
\<close>

lemma getLastSentTimeStamp_recorded:
  "now \<noteq> 0 \<Longrightarrow> address \<noteq> ''__proto__'' \<or> token \<noteq> ''__proto__'' \<Longrightarrow>
     fst (getLastSentTimeStamp rt (setLastSentTimeStamp sentMemory address token now)
            address token)
       = Inr (Num now)"
  by (simp add: getLastSentTimeStamp_entry entry_setLastSentTimeStamp_same)

subsection \<open>Facts about the sample requests\<close>

lemma not_validAddress_0xbad: "\<not> validAddress ''0xbad''"
  by (simp add: validAddress_def)

lemma not_validAddress_proto: "\<not> validAddress ''__proto__''"
  by (simp add: validAddress_def)

lemma DOGE_unsupported: "''DOGE'' \<notin> dom supportedTokens"
  by (simp add: dom_supportedTokens)

lemma DOGE_not_inherited: "\<not> hasInherited nodeRuntime ''DOGE''"
  by (simp add: hasInherited_def nodeRuntime_def objectPrototypeFunctions_def)

lemma supportedTokens_ETH:
  "supportedTokens ''ETH'' = Some \<lparr>faucetAmount = parseEther5, contract = None\<rparr>"
  by (simp add: supportedTokens_def)


lemma entry_memBad: "entry memBad ''0xbad'' ''ETH'' = Some 1000"
  by (simp add: entry_def dataObject_def memBad_def)

lemma entry_memProto: "entry memProto ''__proto__'' ''ETH'' = Some 1000"
  by (simp add: entry_def dataObject_def memProto_def)


lemma lastSent_memBad: "fst (getLastSentTimeStamp rt memBad ''0xbad'' ''ETH'') = Inr (Num 1000)"
  by (simp add: getLastSentTimeStamp_entry entry_memBad)

lemma lastSent_addrA:
  "fst (getLastSentTimeStamp nodeRuntime emptyMemory addrA token) = Inr Undefined"
  by (rule getLastSentTimeStamp_emptyMemory)
     (simp_all add: addrA_def nodeRuntime_def objectPrototypeFunctions_def)

lemma lastSent_0xbad:
  "fst (getLastSentTimeStamp nodeRuntime emptyMemory ''0xbad'' token) = Inr Undefined"
  by (rule getLastSentTimeStamp_emptyMemory)
     (simp_all add: nodeRuntime_def objectPrototypeFunctions_def)

lemma cooledDown_Undefined: "cooledDown Undefined now"
  by (simp add: cooledDown_def)

text \<open>
  The scenario of a first request: nothing is recorded for the pair, the native transfer of
  5 ether is submitted by the wallet of the primary chain and its hash is reported.
\<close>

lemma first_ETH_request:
  "faucet nodeRuntime chainAccepts 1000 emptyMemory ''ETH'' addrA =
     \<lparr>memory = setLastSentTimeStamp emptyMemory addrA ''ETH'' 1000,
      sent = ''Sent 5000000000000000000 ETH TX hash: 0xfeed.'',
      chainCalls = [SendTransaction ethersWallet addrA parseEther5], thrown = None\<rparr>"
  using faucet_native [OF lastSent_addrA cooledDown_Undefined _ validAddress_addrA,
      where token = "''ETH''" and chain = chainAccepts and now = 1000]
  by (simp add: sentNativeTokens_ETH chainAccepts_def render_parseEther5)

lemma first_USDC_request:
  "faucet nodeRuntime chainAccepts 1000 emptyMemory ''USDC'' addrA =
     \<lparr>memory = setLastSentTimeStamp emptyMemory addrA ''USDC'' 1000,
      sent = ''Sent 0x25AF080 USDC.'',
      chainCalls = [Transfer jhkToken addrA (HexString ''0x25AF080'')], thrown = None\<rparr>"
  using faucet_contract [OF lastSent_addrA cooledDown_Undefined _ validAddress_addrA,
      where token = "''USDC''" and chain = chainAccepts and now = 1000]
  by (simp add: chainAccepts_def)

text \<open>
  \<open>POST /faucet/ETH/__proto__\<close> at time 1000 on the untouched store: \<open>sentMemory['__proto__']\<close>
  is \<open>Object.prototype\<close>, which has no \<open>ETH\<close>, so the gate is open; the assignment replaces the
  prototype of the store; the address is then refused.
\<close>

lemma lastSent_proto_empty:
  "fst (getLastSentTimeStamp nodeRuntime emptyMemory ''__proto__'' ''ETH'') = Inr Undefined"
  by (simp add: getLastSentTimeStamp_fst guardedRead_def dataObject_def emptyMemory_def
        objectPrototypeProperty_def nodeRuntime_def objectPrototypeFunctions_def)

lemma setLastSentTimeStamp_proto:
  "setLastSentTimeStamp emptyMemory ''__proto__'' ''ETH'' 1000 = memProto"
  by (simp add: setLastSentTimeStamp_def meetsSetter_def dataObject_def emptyMemory_def
        memProto_def)

lemma proto_request:
  "faucet nodeRuntime chainAccepts 1000 emptyMemory ''ETH'' ''__proto__'' =
     \<lparr>memory = memProto, sent = ''Invalid address'', chainCalls = [], thrown = None\<rparr>"
  using faucet_invalid [OF lastSent_proto_empty cooledDown_Undefined _ not_validAddress_proto,
      where chain = chainAccepts and now = 1000]
  by (simp add: dom_supportedTokens setLastSentTimeStamp_proto)

section \<open>The claims\<close>

subsection \<open>C1: the cooldown gate\<close>




subsection \<open>C2: a chain failure must not leave the dispatcher\<close>

text \<open>
  C2 holds in the newest iteration (\<open>faucet_catches\<close>) and fails in \<open>src/index.ts\<close>: there
  the native send is awaited outside any \<open>try\<close>. When the chain throws
  \<open>insufficient funds\<close> on the request for ETH to a well-formed address, the handler's
  promise is rejected with that error and no response is sent.
\<close>

theorem index_handler_rejects:
  "chainFails (SendTransaction ethersWallet addrA parseEther1) = Throws ''insufficient funds''
   \<and> faucet_index rt chainFails ''ETH'' addrA =
       (Rejects ''insufficient funds'', [SendTransaction ethersWallet addrA parseEther1])"
  using validAddress_nonempty [OF validAddress_addrA]
  by (simp add: faucet_index_def supportedTokens_index_def validAddress_addrA chainFails_def)

subsection \<open>C3: a token that is not in the registry\<close>

text \<open>
  C3 as stated fails: the first request for DOGE is answered \<open>Unsupported token DOGE.\<close> and
  it does create the cooldown entry of the pair, because the timestamp is recorded before
  the registry is consulted; the next request for the pair meets the cooldown message.
\<close>

theorem unsupported_token_counterexample:
  "''DOGE'' \<notin> dom supportedTokens
   \<and> sent (faucet nodeRuntime chainAccepts 1000 emptyMemory ''DOGE'' addrA)
       = ''Unsupported token DOGE.''
   \<and> entry emptyMemory addrA ''DOGE'' = None
   \<and> entry (memory (faucet nodeRuntime chainAccepts 1000 emptyMemory ''DOGE'' addrA))
        addrA ''DOGE'' = Some 1000
   \<and> sent (faucet nodeRuntime chainAccepts 2000
             (memory (faucet nodeRuntime chainAccepts 1000 emptyMemory ''DOGE'' addrA))
             ''DOGE'' addrA)
       = ''Have already recieved tokens in last 24 hours.''"
proof -
  from faucet_unsupported [OF lastSent_addrA cooledDown_Undefined DOGE_unsupported
      DOGE_not_inherited, of chainAccepts 1000]
  have first: "faucet nodeRuntime chainAccepts 1000 emptyMemory ''DOGE'' addrA =
      \<lparr>memory = setLastSentTimeStamp emptyMemory addrA ''DOGE'' 1000,
       sent = ''Unsupported token DOGE.'', chainCalls = [], thrown = None\<rparr>"
    by simp
  have stored: "entry (setLastSentTimeStamp emptyMemory addrA ''DOGE'' 1000) addrA ''DOGE''
      = Some 1000"
    by (rule entry_setLastSentTimeStamp_same) simp
  have "\<not> cooledDown (Num 1000) 2000"
    by (simp add: cooledDown_def)
  from faucet_blocked [OF getLastSentTimeStamp_entry [OF stored] this, of nodeRuntime chainAccepts]
  have second: "sent (faucet nodeRuntime chainAccepts 2000
      (setLastSentTimeStamp emptyMemory addrA ''DOGE'' 1000) ''DOGE'' addrA) = cooldownMessage"
    by simp
  have "entry emptyMemory addrA ''DOGE'' = None"
    by (simp add: entry_def dataObject_def emptyMemory_def)
  with first second stored show ?thesis
    by (simp add: DOGE_unsupported cooldownMessage_def)
qed

text \<open>
  C3, amended: a request for a token symbol that is not in the registry never submits a
  call to the chain. When the symbol is not a name inherited from \<open>Object.prototype\<close>
  either, a request that passes the cooldown gate is answered \<open>Unsupported token {symbol}.\<close>
  and records the current time as the cooldown entry of the pair; a request that the gate
  stops is answered with the cooldown message and leaves the store as it was.
\<close>

theorem unsupported_token:
  assumes "token \<notin> dom supportedTokens"
  shows "(let r = faucet rt chain now sentMemory token address in
          chainCalls r = []
        \<and> (fst (getLastSentTimeStamp rt sentMemory address token) = Inr lastSent
             \<and> cooledDown lastSent now \<and> \<not> hasInherited rt token \<longrightarrow>
             r = \<lparr>memory = setLastSentTimeStamp sentMemory address token now,
                  sent = ''Unsupported token '' @ token @ ''.'', chainCalls = [],
                  thrown = None\<rparr>
             \<and> entry (memory r) address token = Some now)
        \<and> (fst (getLastSentTimeStamp rt sentMemory address token) = Inr lastSent
             \<and> \<not> cooledDown lastSent now \<longrightarrow>
             r = \<lparr>memory = sentMemory, sent = cooldownMessage, chainCalls = [],
                  thrown = None\<rparr>))"
proof -
  have "\<not> hasInherited rt token \<Longrightarrow>
      entry (setLastSentTimeStamp sentMemory address token now) address token = Some now"
    by (rule entry_setLastSentTimeStamp_same) (simp add: hasInherited_def)
  with faucet_no_call_unregistered [OF assms, of rt chain now sentMemory address]
    faucet_unsupported [OF _ _ assms, of rt sentMemory address lastSent now chain]
    faucet_blocked [of rt sentMemory address token lastSent now chain]
  show ?thesis by (simp add: Let_def)
qed

theorem unsupported_token_witness:
  "''DOGE'' \<notin> dom supportedTokens
   \<and> fst (getLastSentTimeStamp nodeRuntime emptyMemory addrA ''DOGE'') = Inr Undefined
   \<and> cooledDown Undefined 1000 \<and> \<not> hasInherited nodeRuntime ''DOGE''
   \<and> faucet nodeRuntime chainAccepts 1000 emptyMemory ''DOGE'' addrA =
       \<lparr>memory = setLastSentTimeStamp emptyMemory addrA ''DOGE'' 1000,
        sent = ''Unsupported token DOGE.'', chainCalls = [], thrown = None\<rparr>
   \<and> entry (memory (faucet nodeRuntime chainAccepts 1000 emptyMemory ''DOGE'' addrA))
        addrA ''DOGE'' = Some 1000"
  using unsupported_token [OF DOGE_unsupported, where rt = nodeRuntime and chain = chainAccepts
      and now = 1000 and sentMemory = emptyMemory and address = addrA and lastSent = Undefined]
    DOGE_unsupported DOGE_not_inherited lastSent_addrA [of "''DOGE''"] cooledDown_Undefined [of 1000]
  by (auto simp: Let_def)

subsection \<open>C4: reading back what was recorded\<close>

text \<open>
  C4 holds in the newest iteration (\<open>getLastSentTimeStamp_recorded\<close>,
  \<open>getLastSentTimeStamp_emptyMemory\<close>) and fails in \<open>src/unnamed/part_001\<close>: for a pair that
  was never recorded, on the empty store, that iteration's lookup throws a \<open>TypeError\<close>
  where the newest one returns nothing.
\<close>

theorem part_001_lookup_throws:
  "entry emptyMemory addrA ''ETH'' = None
   \<and> getLastSentTimeStamp_part_001 nodeRuntime emptyMemory addrA ''ETH'' = Inl TypeError
   \<and> fst (getLastSentTimeStamp nodeRuntime emptyMemory addrA ''ETH'') = Inr Undefined"
  by (simp add: lastSent_addrA)
     (simp add: getLastSentTimeStamp_part_001_def entry_def dataObject_def inheritedValue_def
        inheritedProperty_def emptyMemory_def addrA_def nodeRuntime_def
        objectPrototypeFunctions_def)

subsection \<open>C5: the sweep\<close>

text \<open>
  C5 holds for the entries of the own address objects (\<open>entry_sweep_own\<close>, with
  \<open>sweepInterval_value\<close> and \<open>sweep_empty\<close>) and fails for an entry recorded under the
  address \<open>__proto__\<close>. \<open>POST /faucet/ETH/__proto__\<close> at time 1000 on the untouched store
  records the timestamp in an object that becomes the prototype of the store. The sweep at
  86401000, when the entry is 24 hours old, never visits that object: the store is left as
  it is and the entry is still what the lookup returns.
\<close>

theorem sweep_skips_replaced_prototype:
  "faucet nodeRuntime chainAccepts 1000 emptyMemory ''ETH'' ''__proto__'' =
     \<lparr>memory = memProto, sent = ''Invalid address'', chainCalls = [], thrown = None\<rparr>
   \<and> entry memProto ''__proto__'' ''ETH'' = Some 1000
   \<and> (86401000 :: int) - 1000 \<ge> 86400000
   \<and> sweep 86401000 memProto = memProto
   \<and> entry (sweep 86401000 memProto) ''__proto__'' ''ETH'' = Some 1000
   \<and> fst (getLastSentTimeStamp nodeRuntime (sweep 86401000 memProto) ''__proto__'' ''ETH'')
       = Inr (Num 1000)"
proof -
  have same: "sweep 86401000 memProto = memProto"
    by (simp add: sweep_def memProto_def)
  from getLastSentTimeStamp_entry [OF entry_memProto, of nodeRuntime]
  have "fst (getLastSentTimeStamp nodeRuntime memProto ''__proto__'' ''ETH'') = Inr (Num 1000)"
    by simp
  with same show ?thesis
    by (simp add: proto_request entry_memProto)
qed

subsection \<open>C6: the success message\<close>

text \<open>
  C6 as stated fails for the contract token: the transfer of USDC is accepted by the chain
  with hash \<open>0xfeed\<close>, and the message sent is \<open>Sent 0x25AF080 USDC.\<close>, without the hash.
\<close>

theorem success_message_counterexample:
  "chainCalls (faucet nodeRuntime chainAccepts 1000 emptyMemory ''USDC'' addrA)
     = [Transfer jhkToken addrA (HexString ''0x25AF080'')]
   \<and> chainAccepts (Transfer jhkToken addrA (HexString ''0x25AF080'')) = Resolves ''0xfeed''
   \<and> sent (faucet nodeRuntime chainAccepts 1000 emptyMemory ''USDC'' addrA)
       = ''Sent 0x25AF080 USDC.''
   \<and> sent (faucet nodeRuntime chainAccepts 1000 emptyMemory ''USDC'' addrA)
       \<noteq> ''Sent 0x25AF080 USDC TX hash: 0xfeed.''"
  by (simp add: first_USDC_request chainAccepts_def)

text \<open>
  C6, amended: when the call a request submitted is accepted by the chain with hash \<open>h\<close>,
  the message sent for a native token (ETH, EDG) is \<open>Sent {amount} {token} TX hash: {h}.\<close>,
  and the message sent for a contract token is \<open>Sent {amount} {token}.\<close>, where \<open>amount\<close> is
  the registry's faucet amount of the token.
\<close>

theorem success_message:
  assumes "chainCalls (faucet rt chain now sentMemory token address) = [c]"
    and "chain c = Resolves h" and "supportedTokens token = Some cfg"
  shows "sent (faucet rt chain now sentMemory token address) =
           (if token = ''ETH'' \<or> token = ''EDG''
            then ''Sent '' @ renderAmount (faucetAmount cfg) @ '' '' @ token
                   @ '' TX hash: '' @ h @ ''.''
            else ''Sent '' @ renderAmount (faucetAmount cfg) @ '' '' @ token @ ''.'')"
proof -
  from chainCalls_gate [OF assms(1)] obtain lastSent
    where get: "fst (getLastSentTimeStamp rt sentMemory address token) = Inr lastSent"
      and open_gate: "cooledDown lastSent now"
    by blast
  note valid = chainCalls_valid [OF assms(1)]
  from chainCalls_supported [OF assms(1)]
  consider "token = ''ETH''" | "token = ''EDG''" | "token = ''USDC''"
    by (auto simp: dom_supportedTokens)
  then show ?thesis
  proof cases
    case 1
    with faucet_native [OF get open_gate _ valid, of chain] assms show ?thesis
      by (auto simp: sentNativeTokens_ETH supportedTokens_def split: outcome.splits)
  next
    case 2
    with faucet_native [OF get open_gate _ valid, of chain] assms show ?thesis
      by (auto simp: sentNativeTokens_EDG supportedTokens_def split: outcome.splits)
  next
    case 3
    with faucet_contract [OF get open_gate _ valid, of chain] assms show ?thesis
      by (auto simp: supportedTokens_def split: outcome.splits)
  qed
qed

theorem success_message_witness:
  "chainCalls (faucet nodeRuntime chainAccepts 1000 emptyMemory ''ETH'' addrA)
     = [SendTransaction ethersWallet addrA parseEther5]
   \<and> chainAccepts (SendTransaction ethersWallet addrA parseEther5) = Resolves ''0xfeed''
   \<and> supportedTokens ''ETH'' = Some \<lparr>faucetAmount = parseEther5, contract = None\<rparr>
   \<and> sent (faucet nodeRuntime chainAccepts 1000 emptyMemory ''ETH'' addrA)
       = ''Sent 5000000000000000000 ETH TX hash: 0xfeed.''"
proof -
  have 1: "chainCalls (faucet nodeRuntime chainAccepts 1000 emptyMemory ''ETH'' addrA)
             = [SendTransaction ethersWallet addrA parseEther5]"
    by (simp add: first_ETH_request)
  have 2: "chainAccepts (SendTransaction ethersWallet addrA parseEther5) = Resolves ''0xfeed''"
    by (simp add: chainAccepts_def)
  from success_message [OF 1 2 supportedTokens_ETH] 1 2 supportedTokens_ETH
  show ?thesis by (simp add: render_parseEther5)
qed

subsection \<open>C7: amount and wallet of a native dispense\<close>

text \<open>
  C7 holds in the newest iteration (\<open>native_amount_and_wallet\<close>) and fails in
  \<open>src/index.ts\<close>: there the request for ETH submits the literal \<open>parseEther("1.0")\<close>, that
  is 1000000000000000000 wei, while the registry of that iteration configures the faucet
  amount of ETH as \<open>0x1312D00\<close>, that is 20000000.
\<close>

theorem index_native_amount:
  "snd (faucet_index rt chainAccepts ''ETH'' addrA)
     = [SendTransaction ethersWallet addrA (BigNumber 1000000000000000000)]
   \<and> map_option faucetAmount (supportedTokens_index ''ETH'') = Some (HexString ''0x1312D00'')
   \<and> bigNumberify (HexString ''0x1312D00'') = 20000000
   \<and> bigNumberify (BigNumber 1000000000000000000) = 1000000000000000000"
  using validAddress_nonempty [OF validAddress_addrA]
  by (simp add: faucet_index_def supportedTokens_index_def validAddress_addrA chainAccepts_def
        parseEther1_def hexDigitValue_def)

subsection \<open>C8: a malformed address\<close>

text \<open>
  C8 as stated fails in its second half: the malformed address \<open>0xbad\<close> with the
  unregistered token DOGE is answered \<open>Unsupported token DOGE.\<close>, and with ETH inside a
  cooldown window it is answered with the cooldown message. The address is tested last.
\<close>

theorem invalid_address_counterexample:
  "\<not> validAddress ''0xbad''
   \<and> sent (faucet nodeRuntime chainAccepts 1000 emptyMemory ''DOGE'' ''0xbad'')
       = ''Unsupported token DOGE.''
   \<and> sent (faucet nodeRuntime chainAccepts 1000 emptyMemory ''DOGE'' ''0xbad'')
       \<noteq> ''Invalid address''
   \<and> sent (faucet nodeRuntime chainAccepts 2000 memBad ''ETH'' ''0xbad'')
       = ''Have already recieved tokens in last 24 hours.''"
proof -
  from faucet_unsupported [OF lastSent_0xbad cooledDown_Undefined DOGE_unsupported
      DOGE_not_inherited, of chainAccepts 1000]
  have 1: "sent (faucet nodeRuntime chainAccepts 1000 emptyMemory ''DOGE'' ''0xbad'')
             = ''Unsupported token DOGE.''"
    by simp
  have "\<not> cooledDown (Num 1000) 2000"
    by (simp add: cooledDown_def)
  from faucet_blocked [OF lastSent_memBad this, of nodeRuntime chainAccepts]
  have 2: "sent (faucet nodeRuntime chainAccepts 2000 memBad ''ETH'' ''0xbad'') = cooldownMessage"
    by simp
  from 1 2 show ?thesis
    by (simp add: not_validAddress_0xbad cooldownMessage_def)
qed

text \<open>
  C8, amended: for an address that fails the pattern, no call is ever submitted to the
  chain. The response is the cooldown message when the gate stops the request; when the
  request passes the gate it is \<open>Invalid address\<close> for a token of the registry, and
  \<open>Unsupported token {symbol}.\<close> for a symbol that is neither in the registry nor a name
  inherited from \<open>Object.prototype\<close>.
\<close>

theorem invalid_address:
  assumes "\<not> validAddress address"
  shows "(let r = faucet rt chain now sentMemory token address in
          chainCalls r = []
        \<and> (fst (getLastSentTimeStamp rt sentMemory address token) = Inr lastSent
             \<and> \<not> cooledDown lastSent now \<longrightarrow> sent r = cooldownMessage)
        \<and> (fst (getLastSentTimeStamp rt sentMemory address token) = Inr lastSent
             \<and> cooledDown lastSent now \<and> token \<in> dom supportedTokens \<longrightarrow>
             sent r = ''Invalid address'')
        \<and> (fst (getLastSentTimeStamp rt sentMemory address token) = Inr lastSent
             \<and> cooledDown lastSent now \<and> token \<notin> dom supportedTokens
             \<and> \<not> hasInherited rt token \<longrightarrow>
             sent r = ''Unsupported token '' @ token @ ''.''))"
  using faucet_no_call_invalid [OF assms, of rt chain now sentMemory token]
    faucet_blocked [of rt sentMemory address token lastSent now chain]
    faucet_unsupported [of rt sentMemory address token lastSent now chain]
    faucet_invalid [OF _ _ _ assms, of rt sentMemory token lastSent now chain]
  by (simp add: Let_def)

theorem invalid_address_witness:
  "\<not> validAddress ''0xbad''
   \<and> fst (getLastSentTimeStamp nodeRuntime emptyMemory ''0xbad'' ''ETH'') = Inr Undefined
   \<and> cooledDown Undefined 1000 \<and> ''ETH'' \<in> dom supportedTokens
   \<and> chainCalls (faucet nodeRuntime chainAccepts 1000 emptyMemory ''ETH'' ''0xbad'') = []
   \<and> sent (faucet nodeRuntime chainAccepts 1000 emptyMemory ''ETH'' ''0xbad'')
       = ''Invalid address''"
  using invalid_address [OF not_validAddress_0xbad, where rt = nodeRuntime
      and chain = chainAccepts and now = 1000 and sentMemory = emptyMemory
      and token = "''ETH''" and lastSent = Undefined]
    not_validAddress_0xbad lastSent_0xbad [of "''ETH''"] cooledDown_Undefined [of 1000]
  by (simp add: dom_supportedTokens Let_def)

subsection \<open>C9: what the store operations leave alone\<close>

text \<open>
  C9 holds for the lookup, which hands back the store it was given
  (\<open>getLastSentTimeStamp_snd\<close>), and for the stored timestamps as long as the recorded pair
  is not \<open>(__proto__, __proto__)\<close> (\<open>entry_setLastSentTimeStamp_other\<close>). It fails for what
  the lookup returns. On the untouched store the pair \<open>(ETH, toString)\<close> reads as nothing.
  Recording the distinct pair \<open>(__proto__, ETH)\<close> makes the new object the prototype of the
  store, so that \<open>sentMemory['ETH']\<close> is the number 1000 and the lookup of
  \<open>(ETH, toString)\<close> returns the function \<open>toString\<close> of that number: the request for that
  pair is then answered with the cooldown message.
\<close>

theorem prototype_write_changes_lookup:
  "(''ETH'', ''toString'') \<noteq> (''__proto__'', ''ETH'')
   \<and> fst (getLastSentTimeStamp nodeRuntime emptyMemory ''ETH'' ''toString'') = Inr Undefined
   \<and> setLastSentTimeStamp emptyMemory ''__proto__'' ''ETH'' 1000 = memProto
   \<and> fst (getLastSentTimeStamp nodeRuntime memProto ''ETH'' ''toString'')
       = Inr (Foreign True None)
   \<and> sent (faucet nodeRuntime chainAccepts 2000 memProto ''toString'' ''ETH'')
       = ''Have already recieved tokens in last 24 hours.''"
proof -
  have before: "fst (getLastSentTimeStamp nodeRuntime emptyMemory ''ETH'' ''toString'')
      = Inr Undefined"
    by (rule getLastSentTimeStamp_emptyMemory)
       (simp_all add: nodeRuntime_def objectPrototypeFunctions_def)
  have after: "fst (getLastSentTimeStamp nodeRuntime memProto ''ETH'' ''toString'')
      = Inr (Foreign True None)"
    by (simp add: getLastSentTimeStamp_fst guardedRead_def dataObject_def inheritedValue_def
          memProto_def nodeRuntime_def nodeMember_def numberPrototypeFunctions_def)
  have "\<not> cooledDown (Foreign True None) 2000"
    by (simp add: cooledDown_def)
  from faucet_blocked [OF after this, of chainAccepts]
  have "sent (faucet nodeRuntime chainAccepts 2000 memProto ''toString'' ''ETH'')
      = cooldownMessage"
    by simp
  with before after show ?thesis
    by (simp add: setLastSentTimeStamp_proto cooldownMessage_def)
qed

subsection \<open>C10: \<open>getContract\<close>\<close>

text \<open>
  C10: \<open>getContract\<close> returns the configuration of USDC when its argument is \<open>USDC\<close> and
  nothing for every other string, ETH and EDG included, in the newest iteration and in
  \<open>src/index.ts\<close> alike; and a request for ETH or EDG that passes the gate with a
  well-formed address is answered by \<open>sentNativeTokens\<close>, without \<open>getContract\<close>.
\<close>

theorem getContract_only_USDC:
  "getContract tokenName =
     (if tokenName = ''USDC''
      then Some \<lparr>faucetAmount = HexString ''0x25AF080'', contract = Some jhkToken\<rparr>
      else None)
   \<and> supportedTokens ''USDC''
       = Some \<lparr>faucetAmount = HexString ''0x25AF080'', contract = Some jhkToken\<rparr>
   \<and> getContract ''ETH'' = None \<and> getContract ''EDG'' = None
   \<and> getContract_index tokenName =
       (if tokenName = ''USDC''
        then Some \<lparr>faucetAmount = HexString ''0x1312D00'', contract = Some jhkToken\<rparr>
        else None)
   \<and> ((token = ''ETH'' \<or> token = ''EDG'')
        \<and> fst (getLastSentTimeStamp rt sentMemory address token) = Inr lastSent
        \<and> cooledDown lastSent now
        \<and> validAddress address \<longrightarrow>
        (sent (faucet rt chain now sentMemory token address),
         chainCalls (faucet rt chain now sentMemory token address))
          = sentNativeTokens chain token address)"
  using faucet_native [of rt sentMemory address token lastSent now chain]
  by (auto simp: getContract_def supportedTokens_def getContract_index_def
        supportedTokens_index_def)

theorem getContract_only_USDC_witness:
  "getContract ''USDC''
     = Some \<lparr>faucetAmount = HexString ''0x25AF080'', contract = Some jhkToken\<rparr>
   \<and> getContract ''DOGE'' = None
   \<and> fst (getLastSentTimeStamp nodeRuntime emptyMemory addrA ''ETH'') = Inr Undefined
   \<and> cooledDown Undefined 1000
   \<and> validAddress addrA
   \<and> (sent (faucet nodeRuntime chainAccepts 1000 emptyMemory ''ETH'' addrA),
       chainCalls (faucet nodeRuntime chainAccepts 1000 emptyMemory ''ETH'' addrA))
        = sentNativeTokens chainAccepts ''ETH'' addrA"
  using getContract_only_USDC [where tokenName = "''USDC''" and token = "''ETH''"
      and rt = nodeRuntime and sentMemory = emptyMemory and address = addrA and now = 1000
      and chain = chainAccepts and lastSent = Undefined]
    getContract_only_USDC [where tokenName = "''DOGE''"]
    validAddress_addrA lastSent_addrA [of "''ETH''"] cooledDown_Undefined [of 1000]
  by simp

end
